theory Spec2Isabelle
  imports Complex_Main "HOL-Library.Sublist" "HOL-Library.Log_Nat"
begin

section \<open>Python values used by \<^verbatim>\<open>api/main.py\<close>\<close>

subsection \<open>Strings\<close>

text \<open>
  A Python \<^verbatim>\<open>str\<close> is a sequence of code points and \<^verbatim>\<open>len\<close> counts code points, so a
  text is a list of code points. \<open>lit\<close> turns an ASCII literal of the source into that
  representation. \<^verbatim>\<open>sub in s\<close> is \<open>sublist sub s\<close> (a contiguous occurrence),
  \<^verbatim>\<open>s.count(c)\<close> for a one-character \<^verbatim>\<open>c\<close> is \<open>count_list s c\<close>.
\<close>

type_synonym pystr = "nat list"

definition lit :: "string \<Rightarrow> pystr" where
  "lit s = map of_char s"

definition nl :: nat where
  "nl = 10"

definition triple_quote :: pystr where
  "triple_quote = [34, 34, 34]"

text \<open>\<^verbatim>\<open>s.split(sep)\<close> for a one-character separator: a left-to-right scan that closes the
  current piece at every separator; the last piece is closed by the end of the text.\<close>

fun split_acc :: "'a \<Rightarrow> 'a list \<Rightarrow> 'a list \<Rightarrow> 'a list list" where
  "split_acc sep cur [] = [cur]"
| "split_acc sep cur (c # cs) =
     (if c = sep then cur # split_acc sep [] cs else split_acc sep (cur @ [c]) cs)"

definition split :: "'a list \<Rightarrow> 'a \<Rightarrow> 'a list list" where
  "split s sep = split_acc sep [] s"

subsection \<open>Exceptions\<close>

datatype exn =
    ZeroDivisionError
  | ValueError
  | KeyError
  | HTTPException int pystr
  | Raised pystr

subsection \<open>Floats\<close>

text \<open>
  A Python \<^verbatim>\<open>float\<close> is an IEEE 754 binary64 number. A finite one is modelled by the
  rational it denotes, and every float operation of the source rounds the exact result
  to the nearest binary64 number, ties to even (\<open>to_double\<close>: 53 significant bits).
  The exponent range is not modelled: all values computed here lie between \<open>1/2\<close> and
  \<open>1000\<close>, far from overflow and from the subnormal numbers.
\<close>

definition round_half_even :: "rat \<Rightarrow> int" where
  "round_half_even x =
     (let f = \<lfloor>x\<rfloor>; r = x - of_int f
      in if r < 1 / 2 then f else if 1 / 2 < r then f + 1 else if even f then f else f + 1)"

text \<open>The binary exponent of a positive rational: the \<open>e\<close> with \<open>2 ^ e \<le> x < 2 ^ (e + 1)\<close>.\<close>

definition exponent :: "rat \<Rightarrow> int" where
  "exponent x =
     (let (a, b) = quotient_of x;
          e = int (floorlog 2 (nat a)) - int (floorlog 2 (nat b))
      in if 2 powi e \<le> x then e else e - 1)"

definition to_double :: "rat \<Rightarrow> rat" where
  "to_double x =
     (if x = 0 then 0
      else let a = \<bar>x\<bar>; ulp = 2 powi (exponent a - 52)
           in sgn x * of_int (round_half_even (a / ulp)) * ulp)"

text \<open>\<^verbatim>\<open>a / b\<close> on two ints is true division: the correctly rounded quotient, or
  \<^verbatim>\<open>ZeroDivisionError\<close>.\<close>

definition true_div :: "int \<Rightarrow> int \<Rightarrow> exn + rat" where
  "true_div a b = (if b = 0 then Inl ZeroDivisionError else Inr (to_double (of_int a / of_int b)))"

text \<open>\<^verbatim>\<open>n * x\<close> with an int \<^verbatim>\<open>n\<close> and a float \<^verbatim>\<open>x\<close> converts \<^verbatim>\<open>n\<close> to a float and
  multiplies.\<close>

definition int_mul_float :: "int \<Rightarrow> rat \<Rightarrow> rat" where
  "int_mul_float n x = to_double (to_double (of_int n) * x)"

text \<open>\<^verbatim>\<open>int(x)\<close> on a float truncates toward zero.\<close>

definition py_int :: "rat \<Rightarrow> int" where
  "py_int x = (if 0 \<le> x then \<lfloor>x\<rfloor> else \<lceil>x\<rceil>)"

section \<open>Quality scoring\<close>

text \<open>\<^verbatim>\<open>estimate_quality(code)\<close>, statement by statement; \<open>scores\<close> is the list the source
  appends to.\<close>

definition estimate_quality :: "pystr \<Rightarrow> exn + int" where
  "estimate_quality code =
     (let scores = [];
          lines = int (count_list code nl) + 1;
          scores = scores @ [if 10 \<le> lines \<and> lines \<le> 500 then 100
                             else if lines < 10 then 50 else 70];
          scores = scores @ [if sublist (lit ''def '') code \<or> sublist (lit ''class '') code
                                \<or> sublist (lit ''function '') code then 100 else 60];
          scores = scores @ [if sublist (lit ''#'') code \<or> sublist (lit ''//'') code
                                \<or> sublist triple_quote code then 90 else 70];
          long_lines = sum_list [1. line \<leftarrow> split code nl, 120 < length line];
          scores = scores @ [if long_lines = (0::int) then 100
                             else if long_lines < 5 then 80 else 50]
      in case true_div (sum_list scores) (int (length scores)) of
           Inl e \<Rightarrow> Inl e
         | Inr avg \<Rightarrow> Inr (max 10 (min 100 (py_int avg))))"

text \<open>The four entries of \<open>scores\<close>, named after the source's comments.\<close>

definition line_count :: "pystr \<Rightarrow> int" where
  "line_count code = int (count_list code nl) + 1"

definition long_lines :: "pystr \<Rightarrow> int" where
  "long_lines code = sum_list [1. line \<leftarrow> split code nl, 120 < length line]"

definition has_structure :: "pystr \<Rightarrow> bool" where
  "has_structure code \<longleftrightarrow>
     sublist (lit ''def '') code \<or> sublist (lit ''class '') code \<or> sublist (lit ''function '') code"

definition has_comments :: "pystr \<Rightarrow> bool" where
  "has_comments code \<longleftrightarrow>
     sublist (lit ''#'') code \<or> sublist (lit ''//'') code \<or> sublist triple_quote code"

definition length_score :: "pystr \<Rightarrow> int" where
  "length_score code =
     (if 10 \<le> line_count code \<and> line_count code \<le> 500 then 100
      else if line_count code < 10 then 50 else 70)"

definition structure_score :: "pystr \<Rightarrow> int" where
  "structure_score code = (if has_structure code then 100 else 60)"

definition comment_score :: "pystr \<Rightarrow> int" where
  "comment_score code = (if has_comments code then 90 else 70)"

definition width_score :: "pystr \<Rightarrow> int" where
  "width_score code =
     (if long_lines code = 0 then 100 else if long_lines code < 5 then 80 else 50)"

definition score_sum :: "pystr \<Rightarrow> int" where
  "score_sum code = length_score code + structure_score code + comment_score code + width_score code"

subsection \<open>More string and bytes operations\<close>

text \<open>\<^verbatim>\<open>s.replace(old, new)\<close>: every occurrence of \<open>old\<close>, found left to right and not
  overlapping, becomes \<open>new\<close>. \<open>old\<close> is non-empty at both call sites of the source
  (\<^verbatim>\<open>"0x"\<close> and \<^verbatim>\<open>"ipfs://"\<close>).\<close>

function replace :: "'a list \<Rightarrow> 'a list \<Rightarrow> 'a list \<Rightarrow> 'a list" where
  "replace [] old new = []"
| "replace (c # cs) old new =
     (if old \<noteq> [] \<and> prefix old (c # cs)
      then new @ replace (drop (length old) (c # cs)) old new
      else c # replace cs old new)"
  by pat_completeness auto
termination
  by (relation "measure (\<lambda>(s, old, new). length s)") auto

text \<open>\<^verbatim>\<open>str(n)\<close> of an int, used by the f-strings of the responses.\<close>

function digits :: "nat \<Rightarrow> pystr" where
  "digits n = (if n < 10 then [48 + n] else digits (n div 10) @ [48 + n mod 10])"
  by pat_completeness auto
termination
  by (relation "measure id") auto

definition str_int :: "int \<Rightarrow> pystr" where
  "str_int i = (if i < 0 then 45 # digits (nat (- i)) else digits (nat i))"

type_synonym bytes = "nat list"

definition isspace :: "nat \<Rightarrow> bool" where
  "isspace c \<longleftrightarrow> c = 32 \<or> (9 \<le> c \<and> c \<le> 13)"

definition hex_value :: "nat \<Rightarrow> nat option" where
  "hex_value c =
     (if 48 \<le> c \<and> c \<le> 57 then Some (c - 48)
      else if 97 \<le> c \<and> c \<le> 102 then Some (c - 87)
      else if 65 \<le> c \<and> c \<le> 70 then Some (c - 55)
      else None)"

text \<open>\<^verbatim>\<open>bytes.fromhex(s)\<close>: white space is skipped before a byte, each byte is two hex
  digits, anything else is a \<^verbatim>\<open>ValueError\<close>.\<close>

fun fromhex :: "pystr \<Rightarrow> exn + bytes" where
  "fromhex [] = Inr []"
| "fromhex [c] = (if isspace c then Inr [] else Inl ValueError)"
| "fromhex (c # d # ds) =
     (if isspace c then fromhex (d # ds)
      else case (hex_value c, hex_value d) of
             (Some h, Some l) \<Rightarrow>
               (case fromhex ds of Inl e \<Rightarrow> Inl e | Inr bs \<Rightarrow> Inr ((16 * h + l) # bs))
           | _ \<Rightarrow> Inl ValueError)"

section \<open>Collaborators\<close>

text \<open>
  The ledger (the PawnShop contract reached through web3) and the store (the pinning
  service and the IPFS gateway reached through \<^verbatim>\<open>requests\<close>) are outside the
  repository. Their answers are the fields of a \<open>world\<close>: each one either raises or
  returns. The configuration constants read from the environment are fields too.
\<close>

text \<open>The tuple returned by the contract's \<^verbatim>\<open>getPattern\<close>, fields named as in
  \<^verbatim>\<open>PAWN_SHOP_ABI\<close>; the source reads them by position (0, 2 and 5).\<close>

record pattern =
  p_ipfsUri :: pystr
  p_seller :: pystr
  p_price :: int
  p_quality :: int
  p_timesSold :: int
  p_active :: bool

datatype contract_fn =
    DepositFn bytes pystr int
  | PurchaseFn bytes

text \<open>The transaction dict: what \<^verbatim>\<open>build_transaction\<close> returned, and the keys
  \<^verbatim>\<open>sign_and_send\<close> sets.\<close>

record tx =
  tx_call :: contract_fn
  tx_chainId :: int
  tx_from :: "pystr option"
  tx_nonce :: "int option"
  tx_gas :: "int option"
  tx_gasPrice :: "int option"

text \<open>An HTTP response: \<open>r_json\<close> is \<^verbatim>\<open>r.json()\<close>, an object with string values, or
  the exception raised by the parse.\<close>

record response =
  r_status_code :: int
  r_text :: pystr
  r_json :: "exn + (pystr \<Rightarrow> pystr option)"

text \<open>
  The fields of a world, after the configuration constants:
  \<^item> \<open>keccak\<close> is \<^verbatim>\<open>w3.keccak(text=code)\<close> and \<open>sha256_hexdigest\<close> is
    \<^verbatim>\<open>hashlib.sha256(content.encode()).hexdigest()\<close>: local computations, total on the
    texts a request can carry; \<open>hexbytes_hex\<close> is the \<^verbatim>\<open>.hex()\<close> of the bytes web3 returns;
  \<^item> \<open>requests_post url content\<close> and \<open>requests_get url\<close> are the two HTTP requests;
  \<^item> \<open>eth_contract address\<close> is \<^verbatim>\<open>w3.eth.contract(address=..., abi=...)\<close>;
    \<open>getPattern_call\<close> and \<open>hasAccess_call\<close> are the two contract reads
    (\<^verbatim>\<open>.functions.f(...).call()\<close>); \<open>build_transaction f chain\<close> is
    \<^verbatim>\<open>.functions.f(...).build_transaction({'chainId': chain})\<close>;
  \<^item> \<open>from_key\<close> is the address of \<^verbatim>\<open>Account.from_key(private_key)\<close>,
    \<open>get_transaction_count\<close>, \<open>gas_price\<close> and \<open>send_raw_transaction\<close> are the calls on
    \<^verbatim>\<open>w3.eth\<close>, and \<open>sign_transaction\<close> gives the raw bytes of the signed transaction.
\<close>

record world =
  PAWN_SHOP_ADDRESS :: pystr
  PINATA_API_KEY :: pystr
  PINATA_SECRET :: pystr
  keccak :: "pystr \<Rightarrow> bytes"
  hexbytes_hex :: "bytes \<Rightarrow> pystr"
  sha256_hexdigest :: "pystr \<Rightarrow> pystr"
  requests_post :: "pystr \<Rightarrow> pystr \<Rightarrow> exn + response"
  requests_get :: "pystr \<Rightarrow> exn + response"
  eth_contract :: "pystr \<Rightarrow> exn + unit"
  getPattern_call :: "bytes \<Rightarrow> exn + pattern"
  hasAccess_call :: "pystr \<Rightarrow> bytes \<Rightarrow> exn + bool"
  build_transaction :: "contract_fn \<Rightarrow> int \<Rightarrow> exn + tx"
  from_key :: "pystr \<Rightarrow> exn + pystr"
  get_transaction_count :: "pystr \<Rightarrow> exn + int"
  gas_price :: "exn + int"
  sign_transaction :: "pystr \<Rightarrow> tx \<Rightarrow> exn + bytes"
  send_raw_transaction :: "bytes \<Rightarrow> exn + bytes"

definition CHAIN_ID :: int where
  "CHAIN_ID = 8453"

definition IPFS_GATEWAY :: pystr where
  "IPFS_GATEWAY = lit ''https://gateway.pinata.cloud/ipfs/''"

subsection \<open>Calls and runs\<close>

text \<open>
  A run of a handler is its outcome (an exception or a value) together with the calls
  it made to the collaborators, in order. \<open>Upload\<close> and \<open>Fetch\<close> record that the
  store functions of the source were entered; the other calls are the library calls
  that leave the process or touch a transaction.
\<close>

datatype call =
    Upload pystr
  | Post pystr pystr
  | Fetch pystr
  | Get pystr
  | Contract pystr
  | GetPattern bytes
  | HasAccess pystr bytes
  | BuildTransaction contract_fn
  | GetTransactionCount pystr
  | GasPrice
  | SignTransaction tx
  | SendRawTransaction bytes

fun is_store :: "call \<Rightarrow> bool" where
  "is_store (Upload _) = True"
| "is_store (Post _ _) = True"
| "is_store (Fetch _) = True"
| "is_store (Get _) = True"
| "is_store _ = False"


text \<open>The ledger calls that build, sign or send a transaction.\<close>

fun is_ledger_write :: "call \<Rightarrow> bool" where
  "is_ledger_write (BuildTransaction _) = True"
| "is_ledger_write (SignTransaction _) = True"
| "is_ledger_write (SendRawTransaction _) = True"
| "is_ledger_write _ = False"

type_synonym 'a run = "(exn + 'a) \<times> call list"

definition ret :: "'a \<Rightarrow> 'a run" where
  "ret x = (Inr x, [])"

definition raise :: "exn \<Rightarrow> 'a run" where
  "raise e = (Inl e, [])"

text \<open>A local computation that may raise.\<close>

definition lift :: "exn + 'a \<Rightarrow> 'a run" where
  "lift r = (r, [])"

text \<open>A call to a collaborator, with its outcome.\<close>

definition port :: "call \<Rightarrow> exn + 'a \<Rightarrow> 'a run" where
  "port c r = (r, [c])"

text \<open>Entering a store function of the source.\<close>

definition entered :: "call \<Rightarrow> 'a run \<Rightarrow> 'a run" where
  "entered c m = (fst m, c # snd m)"

text \<open>Sequencing: an exception ends the run.\<close>

definition bnd :: "'a run \<Rightarrow> ('a \<Rightarrow> 'b run) \<Rightarrow> 'b run" where
  "bnd m f =
     (case m of
        (Inl e, t) \<Rightarrow> (Inl e, t)
      | (Inr x, t) \<Rightarrow> (case f x of (r, t') \<Rightarrow> (r, t @ t')))"

text \<open>\<^verbatim>\<open>try: x = m  except: x = None\<close> with a bare \<^verbatim>\<open>except\<close>: every exception is
  caught.\<close>

definition try_except_None :: "'a run \<Rightarrow> 'a option run" where
  "try_except_None m =
     (case m of (Inl e, t) \<Rightarrow> (Inr None, t) | (Inr x, t) \<Rightarrow> (Inr (Some x), t))"

definition outcome :: "'a run \<Rightarrow> exn + 'a" where
  "outcome m = fst m"

definition calls :: "'a run \<Rightarrow> call list" where
  "calls m = snd m"

section \<open>The handlers of \<^verbatim>\<open>api/main.py\<close>\<close>

subsection \<open>Ledger and store clients\<close>

definition get_pawn_shop :: "world \<Rightarrow> unit run" where
  "get_pawn_shop w =
     (if PAWN_SHOP_ADDRESS w = [] then raise (HTTPException 500 (lit ''PawnShop contract not configured''))
      else port (Contract (PAWN_SHOP_ADDRESS w)) (eth_contract w (PAWN_SHOP_ADDRESS w)))"

definition hash_code :: "world \<Rightarrow> pystr \<Rightarrow> bytes" where
  "hash_code w code = keccak w code"

definition sign_and_send :: "world \<Rightarrow> tx \<Rightarrow> pystr \<Rightarrow> pystr run" where
  "sign_and_send w tx private_key =
     bnd (lift (from_key w private_key)) (\<lambda>address.
     let tx = tx\<lparr>tx_from := Some address\<rparr> in
     bnd (port (GetTransactionCount address) (get_transaction_count w address)) (\<lambda>n.
     let tx = tx\<lparr>tx_nonce := Some n\<rparr>;
         tx = tx\<lparr>tx_gas := Some 300000\<rparr> in
     bnd (port GasPrice (gas_price w)) (\<lambda>p.
     let tx = tx\<lparr>tx_gasPrice := Some p\<rparr> in
     bnd (port (SignTransaction tx) (sign_transaction w private_key tx)) (\<lambda>signed.
     bnd (port (SendRawTransaction signed) (send_raw_transaction w signed)) (\<lambda>tx_hash.
     ret (hexbytes_hex w tx_hash))))))"

text \<open>\<^verbatim>\<open>r.json()[key]\<close> and \<^verbatim>\<open>r.json().get(key, default)\<close>.\<close>

definition json_item :: "response \<Rightarrow> pystr \<Rightarrow> exn + pystr" where
  "json_item r k =
     (case r_json r of
        Inl e \<Rightarrow> Inl e
      | Inr obj \<Rightarrow> (case obj k of None \<Rightarrow> Inl KeyError | Some v \<Rightarrow> Inr v))"

definition json_get :: "response \<Rightarrow> pystr \<Rightarrow> pystr \<Rightarrow> exn + pystr" where
  "json_get r k dflt =
     (case r_json r of
        Inl e \<Rightarrow> Inl e
      | Inr obj \<Rightarrow> (case obj k of None \<Rightarrow> Inr dflt | Some v \<Rightarrow> Inr v))"

definition pinning_url :: pystr where
  "pinning_url = lit ''https://api.pinata.cloud/pinning/pinJSONToIPFS''"

definition upload_to_ipfs :: "world \<Rightarrow> pystr \<Rightarrow> pystr run" where
  "upload_to_ipfs w content =
     entered (Upload content)
       (if PINATA_API_KEY w = [] then
          (let content_hash = take 16 (sha256_hexdigest w content)
           in ret (lit ''ipfs://mock/'' @ content_hash))
        else
          bnd (port (Post pinning_url content) (requests_post w pinning_url content)) (\<lambda>r.
          if r_status_code r = 200 then
            bnd (lift (json_item r (lit ''IpfsHash''))) (\<lambda>ipfs_hash.
            ret (lit ''ipfs://'' @ ipfs_hash))
          else raise (HTTPException 500 (lit ''IPFS upload failed: '' @ r_text r))))"

definition fetch_from_ipfs :: "world \<Rightarrow> pystr \<Rightarrow> pystr run" where
  "fetch_from_ipfs w uri =
     entered (Fetch uri)
       (if prefix (lit ''ipfs://mock/'') uri then
          raise (HTTPException 404 (lit ''Mock IPFS content not available''))
        else
          (let ipfs_hash = replace uri (lit ''ipfs://'') [];
               url = IPFS_GATEWAY @ ipfs_hash
           in bnd (port (Get url) (requests_get w url)) (\<lambda>r.
              if r_status_code r = 200 then lift (json_get r (lit ''code'') [])
              else raise (HTTPException 404 (lit ''IPFS content not found'')))))"

subsection \<open>Requests and responses\<close>

record deposit_request =
  dr_code :: pystr
  dr_language :: pystr
  dr_private_key :: "pystr option"

record purchase_request =
  pr_code_hash :: pystr
  pr_private_key :: pystr

record evaluation =
  ev_code_hash :: pystr
  ev_quality :: int
  ev_estimated_credits :: int
  ev_estimated_price :: int
  ev_recommendation :: pystr

text \<open>The unsigned write of a quote: the \<^verbatim>\<open>tx_data\<close> dict.\<close>

record tx_data =
  td_to :: pystr
  td_function :: pystr
  td_args :: "pystr \<times> pystr \<times> int"

record quote =
  q_code_hash :: pystr
  q_ipfs_uri :: pystr
  q_quality :: int
  q_estimated_credits :: int
  q_tx_data :: tx_data
  q_message :: pystr

record receipt =
  rc_code_hash :: pystr
  rc_ipfs_uri :: pystr
  rc_quality :: int
  rc_credits :: int
  rc_tx_hash :: pystr
  rc_message :: pystr

datatype deposit_response = Quote quote | Receipt receipt

record purchase_response =
  pu_code_hash :: pystr
  pu_price :: int
  pu_tx_hash :: pystr
  pu_message :: pystr

text \<open>The dict of \<^verbatim>\<open>check_access\<close>; \<open>ac_ipfs_uri\<close> is \<open>None\<close> when the dict has no
  \<^verbatim>\<open>ipfs_uri\<close> key, \<open>ac_code\<close> is \<open>None\<close> when \<^verbatim>\<open>code\<close> is \<^verbatim>\<open>None\<close>.\<close>

record access =
  ac_has_access :: bool
  ac_ipfs_uri :: "pystr option"
  ac_code :: "pystr option"

subsection \<open>Handlers\<close>

text \<open>The float literal \<^verbatim>\<open>0.85\<close>.\<close>

definition discount :: rat where
  "discount = to_double (85 / 100)"

definition evaluate :: "world \<Rightarrow> pystr \<Rightarrow> pystr \<Rightarrow> evaluation run" where
  "evaluate w code language =
     bnd (lift (estimate_quality code)) (\<lambda>quality.
     let credits = quality * 10;
         price = py_int (int_mul_float credits discount);
         code_hash = hexbytes_hex w (hash_code w code)
     in ret \<lparr>ev_code_hash = code_hash,
             ev_quality = quality,
             ev_estimated_credits = credits,
             ev_estimated_price = price,
             ev_recommendation = (if 50 \<le> quality then lit ''deposit'' else lit ''improve_quality'')\<rparr>)"

text \<open>\<^verbatim>\<open>not req.private_key\<close>: the key is \<^verbatim>\<open>None\<close> or the empty string. \<open>key_of\<close> reads
  the key where the source has passed that test.\<close>

definition no_key :: "pystr option \<Rightarrow> bool" where
  "no_key k \<longleftrightarrow> k = None \<or> k = Some []"

definition key_of :: "pystr option \<Rightarrow> pystr" where
  "key_of k = (case k of None \<Rightarrow> [] | Some s \<Rightarrow> s)"

definition deposit :: "world \<Rightarrow> deposit_request \<Rightarrow> deposit_response run" where
  "deposit w req =
     (if int (length (dr_code req)) < 50 then
        raise (HTTPException 400 (lit ''Code too short (min 50 chars)''))
      else
        bnd (lift (estimate_quality (dr_code req))) (\<lambda>quality.
        let code_hash = hash_code w (dr_code req) in
        bnd (upload_to_ipfs w (dr_code req)) (\<lambda>ipfs_uri.
        if no_key (dr_private_key req) then
          ret (Quote \<lparr>q_code_hash = hexbytes_hex w code_hash,
                      q_ipfs_uri = ipfs_uri,
                      q_quality = quality,
                      q_estimated_credits = quality * 10,
                      q_tx_data = \<lparr>td_to = PAWN_SHOP_ADDRESS w,
                                    td_function = lit ''deposit'',
                                    td_args = (hexbytes_hex w code_hash, ipfs_uri, quality)\<rparr>,
                      q_message = lit ''Sign and submit this transaction to deposit''\<rparr>)
        else
          bnd (get_pawn_shop w) (\<lambda>pawn_shop.
          bnd (port (BuildTransaction (DepositFn code_hash ipfs_uri quality))
                 (build_transaction w (DepositFn code_hash ipfs_uri quality) CHAIN_ID)) (\<lambda>tx.
          bnd (sign_and_send w tx (key_of (dr_private_key req))) (\<lambda>tx_hash.
          ret (Receipt \<lparr>rc_code_hash = hexbytes_hex w code_hash,
                        rc_ipfs_uri = ipfs_uri,
                        rc_quality = quality,
                        rc_credits = quality * 10,
                        rc_tx_hash = tx_hash,
                        rc_message = lit ''Deposited! +'' @ str_int (quality * 10) @ lit '' $RECYCLE''\<rparr>)))))))"

definition purchase :: "world \<Rightarrow> purchase_request \<Rightarrow> purchase_response run" where
  "purchase w req =
     bnd (lift (fromhex (replace (pr_code_hash req) (lit ''0x'') []))) (\<lambda>code_hash.
     bnd (get_pawn_shop w) (\<lambda>pawn_shop.
     bnd (port (GetPattern code_hash) (getPattern_call w code_hash)) (\<lambda>pattern.
     if \<not> p_active pattern then raise (HTTPException 404 (lit ''Pattern not found or inactive''))
     else
       (let price = p_price pattern in
        bnd (port (BuildTransaction (PurchaseFn code_hash))
               (build_transaction w (PurchaseFn code_hash) CHAIN_ID)) (\<lambda>tx.
        bnd (sign_and_send w tx (pr_private_key req)) (\<lambda>tx_hash.
        ret \<lparr>pu_code_hash = pr_code_hash req,
             pu_price = price,
             pu_tx_hash = tx_hash,
             pu_message = lit ''Purchased! -'' @ str_int price @ lit '' $RECYCLE''\<rparr>))))))"

definition check_access :: "world \<Rightarrow> pystr \<Rightarrow> pystr \<Rightarrow> access run" where
  "check_access w buyer code_hash =
     bnd (lift (fromhex (replace code_hash (lit ''0x'') []))) (\<lambda>code_hash_bytes.
     bnd (get_pawn_shop w) (\<lambda>pawn_shop.
     bnd (port (HasAccess buyer code_hash_bytes) (hasAccess_call w buyer code_hash_bytes)) (\<lambda>has_access.
     if \<not> has_access then ret \<lparr>ac_has_access = False, ac_ipfs_uri = None, ac_code = None\<rparr>
     else
       bnd (port (GetPattern code_hash_bytes) (getPattern_call w code_hash_bytes)) (\<lambda>pattern.
       let ipfs_uri = p_ipfsUri pattern in
       bnd (try_except_None (fetch_from_ipfs w ipfs_uri)) (\<lambda>code.
       ret \<lparr>ac_has_access = True, ac_ipfs_uri = Some ipfs_uri, ac_code = code\<rparr>)))))"

text \<open>The test \<^verbatim>\<open>pattern[5]\<close> of \<^verbatim>\<open>purchase\<close> on the ledger's answer: the read of the hash
  returns a pattern and that pattern is active.\<close>

definition active_at :: "world \<Rightarrow> bytes \<Rightarrow> bool" where
  "active_at w code_hash =
     (case getPattern_call w code_hash of Inl e \<Rightarrow> False | Inr pattern \<Rightarrow> p_active pattern)"

subsection \<open>Pricing\<close>

text \<open>The two assignments \<^verbatim>\<open>credits = quality * 10\<close> and \<^verbatim>\<open>price = int(credits * 0.85)\<close> of
  \<^verbatim>\<open>evaluate\<close>, as functions of their inputs.\<close>

definition credits_of :: "int \<Rightarrow> int" where
  "credits_of quality = quality * 10"

definition price_of :: "int \<Rightarrow> int" where
  "price_of credits = py_int (int_mul_float credits discount)"

section \<open>Example inputs\<close>

text \<open>Every line of the text has at most \<open>n\<close> characters.\<close>

definition lines_within :: "pystr \<Rightarrow> nat \<Rightarrow> bool" where
  "lines_within code n = list_all (\<lambda>line. length line \<le> n) (split code nl)"

text \<open>Sixty lines, the last one \<^verbatim>\<open>def #\<close>; and five lines of 121 letters \<^verbatim>\<open>x\<close>.\<close>

definition text60 :: pystr where
  "text60 = replicate 59 nl @ lit ''def #''"

definition long_line :: pystr where
  "long_line = replicate 121 120"

definition worst_text :: pystr where
  "worst_text = long_line @ nl # long_line @ nl # long_line @ nl # long_line @ nl # long_line"

text \<open>
  A world for the examples: no pinning key (the mock store), a configured contract
  whose ledger holds no active pattern and grants no access, no network, and stub hash
  functions. \<open>granting_world\<close> is the same world with a ledger that grants access to a
  pattern stored at \<^verbatim>\<open>ipfs://QmX\<close>.
\<close>

definition stored_pattern :: pattern where
  "stored_pattern =
     \<lparr>p_ipfsUri = lit ''ipfs://QmX'', p_seller = lit ''0xSeller'', p_price = 824,
      p_quality = 97, p_timesSold = 0, p_active = True\<rparr>"

definition empty_pattern :: pattern where
  "empty_pattern =
     \<lparr>p_ipfsUri = [], p_seller = [], p_price = 0, p_quality = 0, p_timesSold = 0,
      p_active = False\<rparr>"

definition example_world :: world where
  "example_world =
     \<lparr>PAWN_SHOP_ADDRESS = lit ''0xPawnShop'',
      PINATA_API_KEY = [],
      PINATA_SECRET = [],
      keccak = (\<lambda>code. [171]),
      hexbytes_hex = (\<lambda>b. lit ''ab''),
      sha256_hexdigest = (\<lambda>content. lit ''0123456789abcdef0123456789abcdef''),
      requests_post = (\<lambda>url content. Inl (Raised (lit ''ConnectionError''))),
      requests_get = (\<lambda>url. Inl (Raised (lit ''ConnectionError''))),
      eth_contract = (\<lambda>address. Inr ()),
      getPattern_call = (\<lambda>code_hash. Inr empty_pattern),
      hasAccess_call = (\<lambda>buyer code_hash. Inr False),
      build_transaction = (\<lambda>f chain. Inl (Raised (lit ''ConnectionError''))),
      from_key = (\<lambda>private_key. Inl ValueError),
      get_transaction_count = (\<lambda>address. Inl (Raised (lit ''ConnectionError''))),
      gas_price = Inl (Raised (lit ''ConnectionError'')),
      sign_transaction = (\<lambda>private_key tx. Inl ValueError),
      send_raw_transaction = (\<lambda>signed. Inl (Raised (lit ''ConnectionError'')))\<rparr>"

definition granting_world :: world where
  "granting_world =
     example_world\<lparr>getPattern_call := (\<lambda>code_hash. Inr stored_pattern),
                    hasAccess_call := (\<lambda>buyer code_hash. Inr True)\<rparr>"


definition short_request :: deposit_request where
  "short_request =
     \<lparr>dr_code = lit ''def f(): pass'', dr_language = lit ''python'', dr_private_key = None\<rparr>"

definition example_purchase :: purchase_request where
  "example_purchase = \<lparr>pr_code_hash = lit ''0xab'', pr_private_key = lit ''key''\<rparr>"

section \<open>Properties of the float model\<close>

lemma floorlog_powi:
  assumes "0 < n"
  shows "(2::rat) powi (int (floorlog 2 (nat n)) - 1) \<le> of_int n"
    and "of_int n < (2::rat) powi int (floorlog 2 (nat n))"
proof -
  define l where "l = floorlog 2 (nat n)"
  have b: "2 ^ (l - 1) \<le> nat n \<and> nat n < 2 ^ l"
    unfolding l_def using floorlog_bounds [of "nat n" 2] assms by simp
  have l: "0 < l"
    using b assms by (cases l) auto
  have "(2::rat) powi (int l - 1) = 2 ^ (l - 1)"
    using l by (simp add: power_int_def nat_diff_distrib)
  moreover have "(2::rat) ^ (l - 1) \<le> of_nat (nat n)"
    using b by (metis of_nat_le_iff of_nat_numeral of_nat_power)
  ultimately show "(2::rat) powi (int (floorlog 2 (nat n)) - 1) \<le> of_int n"
    using assms by (simp add: l_def)
  have "(of_nat (nat n) :: rat) < 2 ^ l"
    using b by (metis of_nat_less_iff of_nat_numeral of_nat_power)
  then show "of_int n < (2::rat) powi int (floorlog 2 (nat n))"
    using assms by (simp add: l_def)
qed

lemma exponent_bounds:
  assumes "0 < x"
  shows "2 powi exponent x \<le> x" and "x < 2 powi (exponent x + 1)"
proof -
  obtain a b where q: "quotient_of x = (a, b)"
    by (cases "quotient_of x")
  have b: "0 < b"
    using quotient_of_denom_pos [OF q] .
  have x: "x = of_int a / of_int b"
    using quotient_of_div [OF q] .
  have a: "0 < a"
    using assms b by (simp add: x zero_less_divide_iff)
  define e where "e = int (floorlog 2 (nat a)) - int (floorlog 2 (nat b))"
  have ex: "exponent x = (if 2 powi e \<le> x then e else e - 1)"
    by (simp add: exponent_def q e_def Let_def)
  have br: "0 < (of_int b :: rat)"
    using b by simp
  have padd: "(2::rat) powi m * 2 powi n = 2 powi (m + n)" for m n
    by (simp add: power_int_add)
  have "x * of_int b < 2 powi int (floorlog 2 (nat a))"
    using floorlog_powi(2) [OF a] br by (simp add: x)
  also have "\<dots> = 2 powi (e + 1) * 2 powi (int (floorlog 2 (nat b)) - 1)"
    by (simp only: padd) (simp add: e_def)
  also have "\<dots> \<le> 2 powi (e + 1) * of_int b"
    using floorlog_powi(1) [OF b] by (intro mult_left_mono) auto
  finally have up: "x < 2 powi (e + 1)"
    using br by simp
  have "(2::rat) powi (e - 1) * of_int b < 2 powi (e - 1) * 2 powi int (floorlog 2 (nat b))"
    using floorlog_powi(2) [OF b] by (intro mult_strict_left_mono) auto
  also have "\<dots> = 2 powi (int (floorlog 2 (nat a)) - 1)"
    by (simp only: padd) (simp add: e_def)
  also have "\<dots> \<le> x * of_int b"
    using floorlog_powi(1) [OF a] br by (simp add: x)
  finally have lo: "2 powi (e - 1) < x"
    using br by simp
  show "2 powi exponent x \<le> x"
    using lo by (simp add: ex)
  show "x < 2 powi (exponent x + 1)"
    using up by (auto simp: ex not_le)
qed

lemma exponent_unique:
  assumes "2 powi e \<le> x" "x < 2 powi (e + 1)"
  shows "exponent x = e"
proof -
  have "0 < (2::rat) powi e"
    by (simp add: zero_less_power_int)
  then have pos: "0 < x"
    using assms(1) by linarith
  note b = exponent_bounds [OF pos]
  have "(2::rat) powi exponent x < 2 powi (e + 1)"
    using b(1) assms(2) by simp
  then have 1: "exponent x < e + 1"
    by (metis power_int_increasing not_le one_le_numeral)
  have "(2::rat) powi e < 2 powi (exponent x + 1)"
    using b(2) assms(1) by simp
  then have 2: "e < exponent x + 1"
    by (metis power_int_increasing not_le one_le_numeral)
  show ?thesis using 1 2 by simp
qed

lemma round_half_even_near:
  assumes "\<bar>r\<bar> < 1 / 2"
  shows "round_half_even (of_int m + r) = m"
proof (cases "0 \<le> r")
  case True
  then have "\<lfloor>of_int m + r\<rfloor> = m"
    using assms by (simp add: floor_unique)
  then show ?thesis
    using assms True by (simp add: round_half_even_def Let_def)
next
  case False
  then have "\<lfloor>of_int m + r\<rfloor> = m - 1"
    using assms by (intro floor_unique) auto
  then show ?thesis
    using assms False by (simp add: round_half_even_def Let_def)
qed

lemma to_double_near:
  assumes "2 powi e \<le> x" "x < 2 powi (e + 1)"
    and "x = (of_int m + r) * 2 powi (e - 52)" "\<bar>r\<bar> < 1 / 2"
  shows "to_double x = of_int m * 2 powi (e - 52)"
proof -
  have "0 < (2::rat) powi e"
    by (simp add: zero_less_power_int)
  then have pos: "0 < x"
    using assms(1) by linarith
  have "x / 2 powi (e - 52) = of_int m + r"
    by (simp add: assms(3))
  then show ?thesis
    using pos exponent_unique [OF assms(1,2)] round_half_even_near [OF assms(4), of m]
    by (simp add: to_double_def Let_def)
qed

lemma to_double_exact:
  assumes "2 powi e \<le> x" "x < 2 powi (e + 1)" "x = of_int m * 2 powi (e - 52)"
  shows "to_double x = x"
  using to_double_near [OF assms(1,2), of m 0] assms(3) by simp

lemma to_double_representable:
  assumes "0 < n" "n < 2 ^ 53"
  shows "to_double (of_int n * 2 powi k) = of_int n * 2 powi k"
proof -
  define x :: rat where "x = of_int n * 2 powi k"
  have pos: "0 < x"
    using assms(1) by (simp add: x_def)
  define e where "e = exponent x"
  have b: "2 powi e \<le> x" "x < 2 powi (e + 1)"
    using exponent_bounds [OF pos] by (simp_all add: e_def)
  have padd: "(2::rat) powi i * 2 powi j = 2 powi (i + j)" for i j
    by (simp add: power_int_add)
  have "(of_int n :: rat) < 2 powi 53"
    using assms(2) by (metis of_int_less_iff of_int_numeral of_int_power power_int_numeral)
  then have "x < 2 powi 53 * 2 powi k"
    by (simp add: x_def)
  then have "(2::rat) powi e < 2 powi (53 + k)"
    using b(1) by (simp only: padd)
  then have ek: "e < 53 + k"
    by (metis power_int_increasing not_le one_le_numeral)
  define j where "j = nat (k - (e - 52))"
  have "(of_int (n * 2 ^ j) :: rat) * 2 powi (e - 52) = of_int n * (2 powi int j * 2 powi (e - 52))"
    by simp
  also have "\<dots> = of_int n * 2 powi (int j + (e - 52))"
    by (simp only: padd)
  also have "int j + (e - 52) = k"
    using ek by (simp add: j_def)
  finally have "x = of_int (n * 2 ^ j) * 2 powi (e - 52)"
    unfolding x_def by (rule sym)
  from to_double_exact [OF b this] show ?thesis
    by (simp add: x_def)
qed

lemma to_double_of_int:
  assumes "0 < n" "n < 2 ^ 53"
  shows "to_double (of_int n) = of_int n"
  using to_double_representable [OF assms, of 0] by simp

lemma to_double_quarter:
  assumes "0 < n" "n < 2 ^ 53"
  shows "to_double (of_int n / 4) = of_int n / 4"
  using to_double_representable [OF assms, of "- 2"] by (simp add: power_int_minus field_simps)

lemma py_int_quarter: "0 \<le> n \<Longrightarrow> py_int (of_int n / 4) = n div 4"
  using floor_divide_of_int_eq [of n 4, where ?'a = rat] by (simp add: py_int_def)

lemma discount_value: "discount = 7656119366529843 / 2 ^ 53"
proof -
  have "to_double (85 / 100) = of_int 7656119366529843 * 2 powi (- 1 - 52)"
    by (rule to_double_near [where r = "1 / 5"]) (simp_all add: power_int_minus)
  then show ?thesis
    by (simp add: discount_def power_int_minus field_simps)
qed

lemma product_rounds:
  assumes "10 \<le> q" "q \<le> 100"
  shows "to_double (of_int (q * 10) * discount) = of_int (17 * q) / 2"
proof -
  define x :: rat where "x = of_int (q * 10) * discount"
  have x: "x = of_int (17 * q) / 2 - of_int q / 2 ^ 52"
    by (simp add: x_def discount_value field_simps)
  consider "q \<le> 15" | "16 \<le> q" "q \<le> 30" | "31 \<le> q" "q \<le> 60" | "61 \<le> q"
    by linarith
  then have "to_double x = of_int (17 * q) / 2"
  proof cases
    case 1
    have "to_double x = of_int (17 * q * 2 ^ 45) * 2 powi (6 - 52)"
      using assms 1
      by (intro to_double_near [where r = "- of_int q / 2 ^ 6"])
        (simp_all add: x power_int_minus field_simps)
    then show ?thesis by (simp add: power_int_minus field_simps)
  next
    case 2
    have "to_double x = of_int (17 * q * 2 ^ 44) * 2 powi (7 - 52)"
      using assms 2
      by (intro to_double_near [where r = "- of_int q / 2 ^ 7"])
        (simp_all add: x power_int_minus field_simps)
    then show ?thesis by (simp add: power_int_minus field_simps)
  next
    case 3
    have "to_double x = of_int (17 * q * 2 ^ 43) * 2 powi (8 - 52)"
      using assms 3
      by (intro to_double_near [where r = "- of_int q / 2 ^ 8"])
        (simp_all add: x power_int_minus field_simps)
    then show ?thesis by (simp add: power_int_minus field_simps)
  next
    case 4
    have "to_double x = of_int (17 * q * 2 ^ 42) * 2 powi (9 - 52)"
      using assms 4
      by (intro to_double_near [where r = "- of_int q / 2 ^ 9"])
        (simp_all add: x power_int_minus field_simps)
    then show ?thesis by (simp add: power_int_minus field_simps)
  qed
  then show ?thesis by (simp add: x_def)
qed

lemma price_exact:
  assumes "10 \<le> q" "q \<le> 100"
  shows "py_int (int_mul_float (q * 10) discount) = (q * 10 * 85) div 100"
proof -
  have "to_double (of_int (q * 10)) = of_int (q * 10)"
    using assms by (intro to_double_of_int) auto
  then have eq: "int_mul_float (q * 10) discount = of_int (17 * q) / of_int 2"
    using product_rounds [OF assms] by (simp add: int_mul_float_def)
  have nonneg: "0 \<le> (of_int (17 * q) :: rat) / of_int 2"
    using assms by simp
  have "py_int (of_int (17 * q) / of_int 2) = \<lfloor>(of_int (17 * q) :: rat) / of_int 2\<rfloor>"
    unfolding py_int_def using nonneg by (simp only: if_True)
  also have "\<dots> = (17 * q) div 2"
    by (rule floor_divide_of_int_eq)
  finally have p: "py_int (int_mul_float (q * 10) discount) = (17 * q) div 2"
    by (simp only: eq)
  have "(q * 10 * 85) div 100 = (50 * (17 * q)) div (50 * 2)"
    by simp
  also have "\<dots> = (17 * q) div 2"
    by (rule div_mult_mult1) simp
  finally show ?thesis
    using p by simp
qed

section \<open>Properties of the string operations\<close>

lemma split_acc_no_sep: "sep \<notin> set xs \<Longrightarrow> split_acc sep cur xs = [cur @ xs]"
  by (induction xs arbitrary: cur) auto

lemma split_acc_sep:
  "sep \<notin> set xs \<Longrightarrow> split_acc sep cur (xs @ sep # ys) = (cur @ xs) # split_acc sep [] ys"
  by (induction xs arbitrary: cur) auto

lemma split_no_sep: "sep \<notin> set xs \<Longrightarrow> split xs sep = [xs]"
  by (simp add: split_def split_acc_no_sep)

lemma split_sep: "sep \<notin> set xs \<Longrightarrow> split (xs @ sep # ys) sep = xs # split ys sep"
  by (simp add: split_def split_acc_sep)

lemma length_split_acc: "length (split_acc sep cur xs) = count_list xs sep + 1"
  by (induction xs arbitrary: cur) auto

lemma length_split: "int (length (split code nl)) = line_count code"
  by (simp add: split_def length_split_acc line_count_def)

lemma sum_comprehension:
  "sum_list (concat (map (\<lambda>x. if P x then [1::int] else []) xs)) = int (length (filter P xs))"
  by (induction xs) auto

lemma long_lines_filter: "long_lines code = int (length (filter (\<lambda>line. 120 < length line) (split code nl)))"
  by (simp add: long_lines_def sum_comprehension)

lemma long_lines_zero: "lines_within code 120 \<Longrightarrow> long_lines code = 0"
  by (auto simp: lines_within_def long_lines_filter list_all_iff filter_empty_conv not_less)

lemma not_sublist: "x \<in> set p \<Longrightarrow> x \<notin> set s \<Longrightarrow> \<not> sublist p s"
  using set_mono_sublist by fastforce

lemma set_long_line: "set long_line = {120}"
  by (simp add: long_line_def)

lemma set_worst_text: "set worst_text = {120, nl}"
  by (auto simp: worst_text_def set_long_line)

lemma worst_text_facts:
  "line_count worst_text = 5" "\<not> has_structure worst_text" "\<not> has_comments worst_text"
  "long_lines worst_text = 5"
proof -
  have c: "count_list long_line nl = 0"
    by (simp add: long_line_def nl_def)
  show "line_count worst_text = 5"
    by (simp add: line_count_def worst_text_def c)
  have "\<not> sublist (lit ''def '') worst_text" "\<not> sublist (lit ''class '') worst_text"
    "\<not> sublist (lit ''function '') worst_text"
    by (rule not_sublist [where x = 99] not_sublist [where x = 100] not_sublist [where x = 102];
        simp add: lit_def set_worst_text nl_def)+
  then show "\<not> has_structure worst_text"
    by (simp add: has_structure_def)
  have "\<not> sublist (lit ''#'') worst_text" "\<not> sublist (lit ''//'') worst_text"
    "\<not> sublist triple_quote worst_text"
    by (rule not_sublist [where x = 35] not_sublist [where x = 47] not_sublist [where x = 34];
        simp add: lit_def triple_quote_def set_worst_text nl_def)+
  then show "\<not> has_comments worst_text"
    by (simp add: has_comments_def)
  have n: "nl \<notin> set long_line"
    by (simp add: set_long_line nl_def)
  have "split worst_text nl = [long_line, long_line, long_line, long_line, long_line]"
    by (simp add: worst_text_def split_sep n split_no_sep)
  then show "long_lines worst_text = 5"
    by (simp add: long_lines_filter long_line_def)
qed

section \<open>Properties of the scorer\<close>

lemma estimate_quality_scores:
  "estimate_quality code =
     (case true_div (score_sum code) 4 of
        Inl e \<Rightarrow> Inl e
      | Inr avg \<Rightarrow> Inr (max 10 (min 100 (py_int avg))))"
  by (simp add: estimate_quality_def score_sum_def length_score_def structure_score_def
      comment_score_def width_score_def line_count_def long_lines_def has_structure_def
      has_comments_def Let_def)

lemma sub_score_bounds:
  "50 \<le> length_score code" "length_score code \<le> 100"
  "60 \<le> structure_score code" "structure_score code \<le> 100"
  "70 \<le> comment_score code" "comment_score code \<le> 90"
  "50 \<le> width_score code" "width_score code \<le> 100"
  by (simp_all add: length_score_def structure_score_def comment_score_def width_score_def)

lemma score_sum_bounds: "230 \<le> score_sum code" "score_sum code \<le> 390"
  using sub_score_bounds [of code] by (simp_all add: score_sum_def)

lemma quality_bounds: "57 \<le> score_sum code div 4" "score_sum code div 4 \<le> 97"
  using score_sum_bounds [of code] by linarith+

lemma average_exact: "true_div (score_sum code) 4 = Inr (of_int (score_sum code) / 4)"
  using score_sum_bounds [of code] to_double_quarter [of "score_sum code"]
  by (simp add: true_div_def)

lemma average_truncated: "py_int (of_int (score_sum code) / 4) = score_sum code div 4"
  using score_sum_bounds(1) [of code] by (intro py_int_quarter) simp

lemma estimate_quality_eq: "estimate_quality code = Inr (score_sum code div 4)"
  using quality_bounds [of code]
  by (simp add: estimate_quality_scores average_exact average_truncated)

lemma text60_facts:
  "line_count text60 = 60" "has_structure text60" "has_comments text60" "lines_within text60 120"
  by code_simp+

lemma best_scores:
  assumes "line_count t = 60" "has_structure t" "has_comments t" "lines_within t 120"
  shows "length_score t = 100" "structure_score t = 100" "comment_score t = 90"
    "width_score t = 100" "score_sum t = 390"
  using assms long_lines_zero [of t]
  by (simp_all add: score_sum_def length_score_def structure_score_def comment_score_def
      width_score_def)

lemma worst_scores:
  "length_score worst_text = 50" "structure_score worst_text = 60"
  "comment_score worst_text = 70" "width_score worst_text = 50" "score_sum worst_text = 230"
  using worst_text_facts
  by (simp_all add: score_sum_def length_score_def structure_score_def comment_score_def
      width_score_def)

lemma price_of_credits:
  assumes "10 \<le> q" "q \<le> 100"
  shows "price_of (credits_of q) = (q * 10 * 85) div 100"
  using price_exact [OF assms] by (simp add: price_of_def credits_of_def)

lemma evaluate_eq:
  "evaluate w code language =
     (Inr \<lparr>ev_code_hash = hexbytes_hex w (hash_code w code),
            ev_quality = score_sum code div 4,
            ev_estimated_credits = credits_of (score_sum code div 4),
            ev_estimated_price = price_of (credits_of (score_sum code div 4)),
            ev_recommendation = lit ''deposit''\<rparr>, [])"
  using quality_bounds [of code]
  by (simp add: evaluate_def estimate_quality_eq bnd_def lift_def ret_def Let_def credits_of_def
      price_of_def)

text \<open>
  C1. For every text, \<^verbatim>\<open>estimate_quality\<close> returns (no exception, the empty text
  included) an integer between 10 and 100. The result is a function of the text alone:
  the body reads no global and no collaborator, so equal texts give equal scores.
\<close>

theorem estimate_quality_total_in_range:
  "\<exists>n. estimate_quality t = Inr n \<and> 10 \<le> n \<and> n \<le> 100"
  using quality_bounds [of t] by (simp add: estimate_quality_eq)

theorem estimate_quality_total_in_range_witness:
  "\<exists>n. estimate_quality [] = Inr n \<and> 10 \<le> n \<and> n \<le> 100"
  using estimate_quality_total_in_range [of "[]"] by simp

text \<open>
  C2, as the code has it. The final score is the average of the four sub-scores
  truncated by \<^verbatim>\<open>int()\<close>, not rounded half up, then clamped to 10..100. For a text of
  exactly 60 lines, with a structure keyword and a comment marker and no line longer
  than 120 characters, the sub-scores are 100, 100, 90 and 100, the average is 97.5,
  and the score is 97; \<^verbatim>\<open>evaluate\<close> then gives 970 credits and the price 824.
\<close>

theorem sixty_lines_score_97:
  assumes "line_count t = 60" "has_structure t" "has_comments t" "lines_within t 120"
  shows "estimate_quality u = Inr (max 10 (min 100 (py_int (of_int (score_sum u) / 4))))
    \<and> length_score t = 100 \<and> structure_score t = 100 \<and> comment_score t = 90
    \<and> width_score t = 100
    \<and> true_div (score_sum t) 4 = Inr (195 / 2)
    \<and> estimate_quality t = Inr 97
    \<and> outcome (evaluate w t language) =
        Inr \<lparr>ev_code_hash = hexbytes_hex w (hash_code w t), ev_quality = 97,
             ev_estimated_credits = 970, ev_estimated_price = 824,
             ev_recommendation = lit ''deposit''\<rparr>"
proof -
  note b = best_scores [OF assms]
  have "estimate_quality u = Inr (max 10 (min 100 (py_int (of_int (score_sum u) / 4))))"
    by (simp add: estimate_quality_scores average_exact)
  moreover have "true_div (score_sum t) 4 = Inr (195 / 2)"
    using average_exact [of t] by (simp add: b)
  moreover have "estimate_quality t = Inr 97"
    by (simp add: estimate_quality_eq b)
  moreover have "price_of (credits_of 97) = 824"
    by (simp add: price_of_credits)
  then have "outcome (evaluate w t language) =
        Inr \<lparr>ev_code_hash = hexbytes_hex w (hash_code w t), ev_quality = 97,
             ev_estimated_credits = 970, ev_estimated_price = 824,
             ev_recommendation = lit ''deposit''\<rparr>"
    by (simp add: evaluate_eq outcome_def b) (simp add: credits_of_def)
  ultimately show ?thesis
    using b by simp
qed

theorem sixty_lines_score_97_witness:
  "estimate_quality text60 = Inr 97
    \<and> outcome (evaluate example_world text60 (lit ''python'')) =
        Inr \<lparr>ev_code_hash = lit ''ab'', ev_quality = 97,
             ev_estimated_credits = 970, ev_estimated_price = 824,
             ev_recommendation = lit ''deposit''\<rparr>"
proof -
  note th = sixty_lines_score_97 [OF text60_facts, of "[]" example_world "lit ''python''"]
  have "hexbytes_hex example_world (hash_code example_world text60) = lit ''ab''"
    by (simp add: example_world_def)
  with th show ?thesis
    by auto
qed

text \<open>
  The statement of C2 fails on the sixty-line text \<open>text60\<close>: it meets every condition of
  the claim, and its score is 97, not 98; 97 gives 970 credits and the price 824, not 980
  and 833.
\<close>

theorem round_half_up_counterexample:
  "line_count text60 = 60 \<and> has_structure text60 \<and> has_comments text60
    \<and> lines_within text60 120
    \<and> estimate_quality text60 = Inr 97 \<and> estimate_quality text60 \<noteq> Inr 98
    \<and> credits_of 97 = 970 \<and> price_of 970 = 824 \<and> price_of 970 \<noteq> 833"
proof -
  have "estimate_quality text60 = Inr 97"
    by (simp add: estimate_quality_eq best_scores [OF text60_facts])
  moreover have "price_of (credits_of 97) = 824"
    by (simp add: price_of_credits)
  ultimately show ?thesis
    using text60_facts by (simp add: credits_of_def)
qed

text \<open>
  C3. \<^verbatim>\<open>evaluate\<close> answers with the credits and the price computed from the quality it
  reports: ten times the quality, and the float product of the credits and 0.85
  truncated by \<^verbatim>\<open>int()\<close>. For every quality between 10 and 100 (the quality of
  \<^verbatim>\<open>evaluate\<close> always is), the credits are ten times the quality, that price is exactly
  the floor of 0.85 times the credits, and the price is at most the credits.
\<close>

theorem price_at_most_credits:
  assumes "10 \<le> q" "q \<le> 100"
  shows "credits_of q = q * 10
    \<and> price_of (credits_of q) = \<lfloor>of_int (credits_of q) * (85 / 100 :: rat)\<rfloor>
    \<and> price_of (credits_of q) \<le> credits_of q
    \<and> (\<exists>r. evaluate w code language = (Inr r, [])
          \<and> ev_quality r = score_sum code div 4
          \<and> 10 \<le> ev_quality r \<and> ev_quality r \<le> 100
          \<and> ev_estimated_credits r = credits_of (ev_quality r)
          \<and> ev_estimated_price r = price_of (ev_estimated_credits r)
          \<and> ev_estimated_credits r = ev_quality r * 10
          \<and> ev_estimated_price r = \<lfloor>of_int (ev_estimated_credits r) * (85 / 100 :: rat)\<rfloor>
          \<and> ev_estimated_price r \<le> ev_estimated_credits r)"
proof -
  have pricing: "credits_of n = n * 10
      \<and> price_of (credits_of n) = \<lfloor>of_int (credits_of n) * (85 / 100 :: rat)\<rfloor>
      \<and> price_of (credits_of n) \<le> credits_of n"
    if n: "10 \<le> n" "n \<le> 100" for n
  proof -
    have p: "price_of (credits_of n) = (n * 10 * 85) div 100"
      by (rule price_of_credits [OF n])
    have "\<lfloor>(of_int (n * 10 * 85) :: rat) / of_int 100\<rfloor> = (n * 10 * 85) div 100"
      by (rule floor_divide_of_int_eq)
    then have "\<lfloor>of_int (credits_of n) * (85 / 100 :: rat)\<rfloor> = (n * 10 * 85) div 100"
      by (simp add: credits_of_def)
    moreover have "(n * 10 * 85) div 100 \<le> n * 10"
      using n by linarith
    ultimately show ?thesis
      using p by (simp add: credits_of_def)
  qed
  define k where "k = score_sum code div 4"
  have k: "10 \<le> k" "k \<le> 100"
    using quality_bounds [of code] by (simp_all add: k_def)
  define r where "r =
      \<lparr>ev_code_hash = hexbytes_hex w (hash_code w code), ev_quality = k,
       ev_estimated_credits = credits_of k,
       ev_estimated_price = price_of (credits_of k),
       ev_recommendation = lit ''deposit''\<rparr>"
  have e: "evaluate w code language = (Inr r, [])"
    by (simp add: evaluate_eq k_def r_def)
  have f: "ev_quality r = k" "ev_estimated_credits r = credits_of k"
    "ev_estimated_price r = price_of (credits_of k)"
    by (simp_all add: r_def)
  note pk = pricing [OF k]
  have "evaluate w code language = (Inr r, [])
          \<and> ev_quality r = score_sum code div 4
          \<and> 10 \<le> ev_quality r \<and> ev_quality r \<le> 100
          \<and> ev_estimated_credits r = credits_of (ev_quality r)
          \<and> ev_estimated_price r = price_of (ev_estimated_credits r)
          \<and> ev_estimated_credits r = ev_quality r * 10
          \<and> ev_estimated_price r = \<lfloor>of_int (ev_estimated_credits r) * (85 / 100 :: rat)\<rfloor>
          \<and> ev_estimated_price r \<le> ev_estimated_credits r"
    unfolding f using e k pk k_def by blast
  then show ?thesis
    using pricing [OF assms] by blast
qed

theorem price_at_most_credits_witness:
  "credits_of 57 = 570 \<and> price_of (credits_of 57) = 484
    \<and> price_of (credits_of 57) \<le> credits_of 57
    \<and> (\<exists>r. evaluate example_world worst_text [] = (Inr r, [])
          \<and> ev_quality r = 57 \<and> ev_estimated_credits r = 570 \<and> ev_estimated_price r = 484)"
proof -
  have "\<lfloor>(of_int 969 :: rat) / of_int 2\<rfloor> = 969 div 2"
    by (rule floor_divide_of_int_eq)
  then have f: "\<lfloor>(969 :: rat) / 2\<rfloor> = 484"
    by simp
  note th = price_at_most_credits [of 57 example_world worst_text "[]"]
  have p: "credits_of 57 = 570" "price_of (credits_of 57) = 484"
    using th f by (simp_all add: credits_of_def)
  obtain r where r: "evaluate example_world worst_text [] = (Inr r, [])"
    "ev_quality r = score_sum worst_text div 4"
    "ev_estimated_credits r = credits_of (ev_quality r)"
    "ev_estimated_price r = price_of (ev_estimated_credits r)"
    using th by auto
  have "ev_quality r = 57"
    by (simp add: r(2) worst_scores)
  then have "ev_estimated_credits r = 570" "ev_estimated_price r = 484"
    using r(3,4) p by simp_all
  then show ?thesis
    using p r(1) \<open>ev_quality r = 57\<close> by simp
qed

text \<open>
  C9. Every score lies between 57 and 97. The sub-scores are at least 50, 60, 70 and 50
  and at most 100, 100, 90 and 100, the float average of their sum is exact and its
  truncation is the integer quotient by 4, so the clamp to 10..100 changes nothing and
  100 is never returned. Both ends are reached: \<open>worst_text\<close> scores 57 and \<open>text60\<close>
  scores 97.
\<close>

theorem estimate_quality_between_57_and_97:
  "estimate_quality t = Inr (score_sum t div 4)
    \<and> 57 \<le> score_sum t div 4 \<and> score_sum t div 4 \<le> 97
    \<and> 50 \<le> length_score t \<and> 60 \<le> structure_score t
    \<and> 70 \<le> comment_score t \<and> 50 \<le> width_score t
    \<and> length_score t \<le> 100 \<and> structure_score t \<le> 100
    \<and> comment_score t \<le> 90 \<and> width_score t \<le> 100
    \<and> true_div (score_sum t) 4 = Inr (of_int (score_sum t) / 4)
    \<and> py_int (of_int (score_sum t) / 4) = score_sum t div 4
    \<and> max 10 (min 100 (score_sum t div 4)) = score_sum t div 4
    \<and> estimate_quality t \<noteq> Inr 100
    \<and> length_score worst_text = 50 \<and> structure_score worst_text = 60
    \<and> comment_score worst_text = 70 \<and> width_score worst_text = 50
    \<and> estimate_quality worst_text = Inr 57
    \<and> length_score text60 = 100 \<and> structure_score text60 = 100
    \<and> comment_score text60 = 90 \<and> width_score text60 = 100
    \<and> estimate_quality text60 = Inr 97"
proof -
  have "estimate_quality worst_text = Inr 57" "estimate_quality text60 = Inr 97"
    by (simp_all add: estimate_quality_eq worst_scores best_scores [OF text60_facts])
  then show ?thesis
    using quality_bounds [of t] sub_score_bounds [of t] worst_scores best_scores [OF text60_facts]
    by (simp add: estimate_quality_eq average_exact average_truncated)
qed

theorem estimate_quality_between_57_and_97_witness:
  "estimate_quality [] = Inr 70"
proof -
  have "score_sum [] = 280"
    by code_simp
  then show ?thesis
    using estimate_quality_between_57_and_97 [of "[]"] by simp
qed

text \<open>
  C10. For every text (and every world), \<^verbatim>\<open>evaluate\<close> returns, makes no call to a
  collaborator, and recommends \<^verbatim>\<open>deposit\<close>: the score is at least 57, so the test
  \<^verbatim>\<open>quality >= 50\<close> never fails.
\<close>

theorem evaluate_recommends_deposit:
  "\<exists>r. evaluate w code language = (Inr r, [])
    \<and> 50 \<le> ev_quality r
    \<and> ev_recommendation r = lit ''deposit''
    \<and> ev_recommendation r \<noteq> lit ''improve_quality''"
  using quality_bounds [of code] by (simp add: evaluate_eq lit_def)

theorem evaluate_recommends_deposit_witness:
  "\<exists>r. evaluate example_world [] [] = (Inr r, []) \<and> ev_recommendation r = lit ''deposit''"
  using evaluate_recommends_deposit [of example_world "[]" "[]"] by auto

section \<open>Properties of the handlers\<close>

subsection \<open>Runs\<close>

lemma outcome_bnd:
  "outcome (bnd m f) = (case outcome m of Inl e \<Rightarrow> Inl e | Inr x \<Rightarrow> outcome (f x))"
  by (simp add: outcome_def bnd_def split: prod.splits sum.splits)

lemma calls_bnd:
  "calls (bnd m f) = (case outcome m of Inl e \<Rightarrow> calls m | Inr x \<Rightarrow> calls m @ calls (f x))"
  by (simp add: outcome_def calls_def bnd_def split: prod.splits sum.splits)

lemma outcome_simps:
  "outcome (ret x) = Inr x" "outcome (raise e) = Inl e" "outcome (lift r) = r"
  "outcome (port c r) = r" "outcome (entered c m) = outcome m"
  "outcome (try_except_None m) = (case outcome m of Inl e \<Rightarrow> Inr None | Inr x \<Rightarrow> Inr (Some x))"
  by (simp_all add: outcome_def ret_def raise_def lift_def port_def entered_def
      try_except_None_def split: prod.splits sum.splits)

lemma calls_simps:
  "calls (ret x) = []" "calls (raise e) = []" "calls (lift r) = []"
  "calls (port c r) = [c]" "calls (entered c m) = c # calls m"
  "calls (try_except_None m) = calls m"
  by (simp_all add: calls_def ret_def raise_def lift_def port_def entered_def
      try_except_None_def split: prod.splits sum.splits)

lemmas run_simps = outcome_bnd calls_bnd outcome_simps calls_simps

subsection \<open>The calls of the clients\<close>


lemma fetch_calls:
  "calls (fetch_from_ipfs w uri) =
     Fetch uri # (if prefix (lit ''ipfs://mock/'') uri then []
                  else [Get (IPFS_GATEWAY @ replace uri (lit ''ipfs://'') [])])"
  by (simp add: fetch_from_ipfs_def run_simps Let_def split: sum.splits)

lemma get_pawn_shop_calls:
  "calls (get_pawn_shop w) = (if PAWN_SHOP_ADDRESS w = [] then [] else [Contract (PAWN_SHOP_ADDRESS w)])"
  by (simp add: get_pawn_shop_def run_simps)

lemma sign_and_send_calls:
  "GetPattern h \<notin> set (calls (sign_and_send w tx k))"
  "HasAccess b h \<notin> set (calls (sign_and_send w tx k))"
  "Fetch u \<notin> set (calls (sign_and_send w tx k))"
  by (simp_all add: sign_and_send_def run_simps Let_def split: sum.splits)

subsection \<open>Deposit\<close>

text \<open>
  C4. A deposit whose text has fewer than 50 characters fails with the 400
  \<^verbatim>\<open>HTTPException\<close> (the validation error of the handler) and makes no call at all:
  neither a store function nor the ledger is reached.
\<close>

theorem deposit_too_short:
  assumes "length (dr_code req) < 50"
  shows "outcome (deposit w req) = Inl (HTTPException 400 (lit ''Code too short (min 50 chars)''))
    \<and> calls (deposit w req) = []"
  using assms by (simp add: deposit_def run_simps)

theorem deposit_too_short_witness:
  "outcome (deposit example_world short_request) =
      Inl (HTTPException 400 (lit ''Code too short (min 50 chars)''))
    \<and> calls (deposit example_world short_request) = []"
  using deposit_too_short [of short_request example_world]
  by (simp add: short_request_def lit_def)



subsection \<open>Purchase\<close>

text \<open>
  C5. Take a purchase whose hash parses to \<open>h\<close> and a configured contract. When the
  ledger's answer to the read of \<open>h\<close> is not an active pattern, no transaction is built,
  signed or sent: the only calls are the contract lookup and that read. When the answer
  is a record that is not active (an absent pattern is reported so by the contract's
  getter: the handler's message is \<^verbatim>\<open>Pattern not found or inactive\<close>), the handler
  fails with the 404 \<^verbatim>\<open>HTTPException\<close>; when the read itself raises, that error is
  the outcome.
\<close>

theorem purchase_inactive_not_found:
  assumes "fromhex (replace (pr_code_hash req) (lit ''0x'') []) = Inr h"
    and "PAWN_SHOP_ADDRESS w \<noteq> []"
    and "eth_contract w (PAWN_SHOP_ADDRESS w) = Inr ()"
    and "\<not> active_at w h"
  shows "outcome (purchase w req) =
      (case getPattern_call w h of
         Inl e \<Rightarrow> Inl e
       | Inr p \<Rightarrow> Inl (HTTPException 404 (lit ''Pattern not found or inactive'')))
    \<and> calls (purchase w req) = [Contract (PAWN_SHOP_ADDRESS w), GetPattern h]
    \<and> filter is_ledger_write (calls (purchase w req)) = []"
  using assms
  by (auto simp: purchase_def run_simps get_pawn_shop_def active_at_def Let_def
      split: sum.splits)

theorem purchase_inactive_not_found_witness:
  "outcome (purchase example_world example_purchase) =
      Inl (HTTPException 404 (lit ''Pattern not found or inactive''))
    \<and> calls (purchase example_world example_purchase) =
        [Contract (lit ''0xPawnShop''), GetPattern [171]]"
proof -
  have h: "fromhex (replace (pr_code_hash example_purchase) (lit ''0x'') []) = Inr [171]"
    by (simp add: example_purchase_def lit_def isspace_def hex_value_def)
  have g: "PAWN_SHOP_ADDRESS example_world \<noteq> []"
    "eth_contract example_world (PAWN_SHOP_ADDRESS example_world) = Inr ()"
    "\<not> active_at example_world [171]"
    by (simp_all add: example_world_def active_at_def empty_pattern_def lit_def)
  show ?thesis
    using purchase_inactive_not_found [OF h g]
    by (simp add: example_world_def)
qed

subsection \<open>Access\<close>

text \<open>
  C6. Take a request whose hash parses to \<open>h\<close> and a configured contract. When the
  ledger answers that the buyer has no access to \<open>h\<close>, \<^verbatim>\<open>check_access\<close> returns
  \<^verbatim>\<open>{"has_access": False, "code": None}\<close> and its only calls are the contract lookup
  and that question: no store function is entered.
\<close>

theorem check_access_denied:
  assumes "fromhex (replace code_hash (lit ''0x'') []) = Inr h"
    and "PAWN_SHOP_ADDRESS w \<noteq> []"
    and "eth_contract w (PAWN_SHOP_ADDRESS w) = Inr ()"
    and "hasAccess_call w buyer h = Inr False"
  shows "outcome (check_access w buyer code_hash) =
      Inr \<lparr>ac_has_access = False, ac_ipfs_uri = None, ac_code = None\<rparr>
    \<and> calls (check_access w buyer code_hash) =
        [Contract (PAWN_SHOP_ADDRESS w), HasAccess buyer h]
    \<and> filter is_store (calls (check_access w buyer code_hash)) = []"
  using assms
  by (simp add: check_access_def run_simps get_pawn_shop_def)

theorem check_access_denied_witness:
  "outcome (check_access example_world (lit ''0xBuyer'') (lit ''0xab'')) =
      Inr \<lparr>ac_has_access = False, ac_ipfs_uri = None, ac_code = None\<rparr>
    \<and> calls (check_access example_world (lit ''0xBuyer'') (lit ''0xab'')) =
        [Contract (lit ''0xPawnShop''), HasAccess (lit ''0xBuyer'') [171]]"
proof -
  have h: "fromhex (replace (lit ''0xab'') (lit ''0x'') []) = Inr [171]"
    by (simp add: lit_def isspace_def hex_value_def)
  have g: "PAWN_SHOP_ADDRESS example_world \<noteq> []"
    "eth_contract example_world (PAWN_SHOP_ADDRESS example_world) = Inr ()"
    "hasAccess_call example_world (lit ''0xBuyer'') [171] = Inr False"
    by (simp_all add: example_world_def lit_def)
  show ?thesis
    using check_access_denied [OF h g]
    by (simp add: example_world_def)
qed

text \<open>
  C7. Take a request whose hash parses to \<open>h\<close> and a configured contract. When the
  ledger answers that the buyer has access to \<open>h\<close>, the read of the pattern returns,
  and \<^verbatim>\<open>fetch_from_ipfs\<close> raises on the pattern's URI, whatever the exception,
  \<^verbatim>\<open>check_access\<close> does not raise: it returns \<^verbatim>\<open>has_access\<close> true, the URI, and
  \<^verbatim>\<open>code\<close> \<^verbatim>\<open>None\<close>, after the two ledger reads and the calls of the fetch.
\<close>

theorem check_access_store_failure:
  assumes "fromhex (replace code_hash (lit ''0x'') []) = Inr h"
    and "PAWN_SHOP_ADDRESS w \<noteq> []"
    and "eth_contract w (PAWN_SHOP_ADDRESS w) = Inr ()"
    and "hasAccess_call w buyer h = Inr True"
    and "getPattern_call w h = Inr p"
    and "outcome (fetch_from_ipfs w (p_ipfsUri p)) = Inl e"
  shows "outcome (check_access w buyer code_hash) =
      Inr \<lparr>ac_has_access = True, ac_ipfs_uri = Some (p_ipfsUri p), ac_code = None\<rparr>
    \<and> calls (check_access w buyer code_hash) =
        [Contract (PAWN_SHOP_ADDRESS w), HasAccess buyer h, GetPattern h]
          @ calls (fetch_from_ipfs w (p_ipfsUri p))"
  using assms
  by (simp add: check_access_def run_simps get_pawn_shop_def Let_def)

theorem check_access_store_failure_witness:
  "outcome (check_access granting_world (lit ''0xBuyer'') (lit ''0xab'')) =
      Inr \<lparr>ac_has_access = True, ac_ipfs_uri = Some (lit ''ipfs://QmX''), ac_code = None\<rparr>"
proof -
  have h: "fromhex (replace (lit ''0xab'') (lit ''0x'') []) = Inr [171]"
    by (simp add: lit_def isspace_def hex_value_def)
  have g: "PAWN_SHOP_ADDRESS granting_world \<noteq> []"
    "eth_contract granting_world (PAWN_SHOP_ADDRESS granting_world) = Inr ()"
    "hasAccess_call granting_world (lit ''0xBuyer'') [171] = Inr True"
    "getPattern_call granting_world [171] = Inr stored_pattern"
    by (simp_all add: granting_world_def example_world_def lit_def)
  have u: "p_ipfsUri stored_pattern = lit ''ipfs://QmX''"
    by (simp add: stored_pattern_def)
  have f: "outcome (fetch_from_ipfs granting_world (p_ipfsUri stored_pattern)) =
      Inl (Raised (lit ''ConnectionError''))"
    by (simp add: fetch_from_ipfs_def run_simps Let_def u)
      (simp add: granting_world_def example_world_def lit_def)
  show ?thesis
    using check_access_store_failure [OF h g f] by (simp add: u)
qed

end
